theory Spec2Isabelle
  imports Complex_Main
begin

section \<open>Numbers of the indicator columns\<close>

text \<open>
  The indicator columns hold double-precision values. A column entry is modelled as a
  finite real, one of the two infinities, or the undefined value \<open>NaN\<close> that the rolling
  windows and the divisions by zero of the source produce. \<open>fadd\<close>, \<open>fsub\<close>, \<open>fmul\<close> and
  \<open>fdiv\<close> give the exact result of an operation, with the rules of the special values:
  a comparison with \<open>NaN\<close> is false, \<open>x / 0\<close> is an infinity for \<open>x \<noteq> 0\<close> and \<open>NaN\<close> for
  \<open>x = 0\<close>, a finite value divided by an infinity is \<open>0\<close>. The operations of the source
  are these followed by the rounding to double precision of the next section. The sign
  of zero is outside the model.
\<close>

datatype fval = Fin real | PInf | NInf | NaN

definition inf_of_sign :: "real \<Rightarrow> fval" where
  "inf_of_sign s = (if s = 0 then NaN else if 0 < s then PInf else NInf)"

fun fneg :: "fval \<Rightarrow> fval" where
  "fneg (Fin a) = Fin (- a)"
| "fneg PInf = NInf"
| "fneg NInf = PInf"
| "fneg NaN = NaN"

fun fadd :: "fval \<Rightarrow> fval \<Rightarrow> fval" where
  "fadd NaN y = NaN"
| "fadd x NaN = NaN"
| "fadd (Fin a) (Fin b) = Fin (a + b)"
| "fadd PInf NInf = NaN"
| "fadd NInf PInf = NaN"
| "fadd PInf y = PInf"
| "fadd x PInf = PInf"
| "fadd NInf y = NInf"
| "fadd x NInf = NInf"

definition fsub :: "fval \<Rightarrow> fval \<Rightarrow> fval" where
  "fsub x y = fadd x (fneg y)"

fun fmul :: "fval \<Rightarrow> fval \<Rightarrow> fval" where
  "fmul NaN y = NaN"
| "fmul x NaN = NaN"
| "fmul (Fin a) (Fin b) = Fin (a * b)"
| "fmul (Fin a) PInf = inf_of_sign a"
| "fmul (Fin a) NInf = inf_of_sign (- a)"
| "fmul PInf (Fin b) = inf_of_sign b"
| "fmul NInf (Fin b) = inf_of_sign (- b)"
| "fmul PInf PInf = PInf"
| "fmul NInf NInf = PInf"
| "fmul PInf NInf = NInf"
| "fmul NInf PInf = NInf"

fun fdiv :: "fval \<Rightarrow> fval \<Rightarrow> fval" where
  "fdiv NaN y = NaN"
| "fdiv x NaN = NaN"
| "fdiv (Fin a) (Fin b) = (if b = 0 then inf_of_sign a else Fin (a / b))"
| "fdiv (Fin a) y = Fin 0"
| "fdiv PInf (Fin b) = (if b < 0 then NInf else PInf)"
| "fdiv NInf (Fin b) = (if b < 0 then PInf else NInf)"
| "fdiv x y = NaN"

fun fabs :: "fval \<Rightarrow> fval" where
  "fabs (Fin a) = Fin \<bar>a\<bar>"
| "fabs PInf = PInf"
| "fabs NInf = PInf"
| "fabs NaN = NaN"

fun flt :: "fval \<Rightarrow> fval \<Rightarrow> bool" where
  "flt NaN y = False"
| "flt x NaN = False"
| "flt (Fin a) (Fin b) = (a < b)"
| "flt x NInf = False"
| "flt PInf y = False"
| "flt NInf y = True"
| "flt x PInf = True"

definition fgt :: "fval \<Rightarrow> fval \<Rightarrow> bool" where
  "fgt x y = flt y x"

fun the_fin :: "fval \<Rightarrow> real option" where
  "the_fin (Fin a) = Some a"
| "the_fin x = None"

section \<open>Double-precision arithmetic\<close>

text \<open>
  \<open>round_double x\<close> is the double nearest to the real \<open>x\<close>. The unit in the last place
  is the power of two 52 places below the binade of \<open>x\<close>, and not below \<open>2^-1074\<close>, the
  spacing of the subnormal numbers; \<open>x\<close> is rounded to the nearest multiple of that unit,
  a tie going to the even multiple; a result of magnitude \<open>2^1024\<close> or more is an
  infinity. \<open>is_double\<close> holds of the reals that are doubles.
\<close>

definition pow2 :: "int \<Rightarrow> real" where
  "pow2 k = (if 0 \<le> k then 2 ^ nat k else 1 / 2 ^ nat (- k))"

definition round_half_even :: "real \<Rightarrow> int" where
  "round_half_even q =
     (let f = \<lfloor>q\<rfloor>; r = q - of_int f
      in if r < 1 / 2 then f else if 1 / 2 < r then f + 1 else if even f then f else f + 1)"

definition ulp_exponent :: "real \<Rightarrow> int" where
  "ulp_exponent x = max \<lfloor>log 2 \<bar>x\<bar>\<rfloor> (- 1022) - 52"

definition round_double :: "real \<Rightarrow> fval" where
  "round_double x =
     (if x = 0 then Fin 0
      else
        (let r = of_int (round_half_even (x / pow2 (ulp_exponent x))) * pow2 (ulp_exponent x)
         in if pow2 1024 \<le> \<bar>r\<bar> then (if 0 < x then PInf else NInf) else Fin r))"


fun rnd :: "fval \<Rightarrow> fval" where
  "rnd (Fin a) = round_double a"
| "rnd x = x"

text \<open>The four operations on doubles: the exact result, rounded.\<close>

definition dadd :: "fval \<Rightarrow> fval \<Rightarrow> fval" where
  "dadd x y = rnd (fadd x y)"

definition dsub :: "fval \<Rightarrow> fval \<Rightarrow> fval" where
  "dsub x y = rnd (fsub x y)"

definition dmul :: "fval \<Rightarrow> fval \<Rightarrow> fval" where
  "dmul x y = rnd (fmul x y)"

definition ddiv :: "fval \<Rightarrow> fval \<Rightarrow> fval" where
  "ddiv x y = rnd (fdiv x y)"

section \<open>Trend categories and the transition predicate\<close>

text \<open>\<open>TrendType\<close> of \<open>trend_analyzer.py\<close>, in the order of the enumeration.\<close>

datatype TrendType = SIDEWAYS | UPTREND | DOWNTREND | UNKNOWN

text \<open>
  \<open>TrendAnalyzer.detect_trend_change(current_trend, previous_trend)\<close>: the early return
  on an unknown previous trend, then membership of the pair \<open>(previous, current)\<close> in the
  list \<open>alert_changes\<close>.
\<close>

definition alert_changes :: "(TrendType \<times> TrendType) list" where
  "alert_changes =
     [(SIDEWAYS, UPTREND), (SIDEWAYS, DOWNTREND), (UPTREND, SIDEWAYS),
      (DOWNTREND, SIDEWAYS), (UPTREND, DOWNTREND), (DOWNTREND, UPTREND)]"

definition detect_trend_change :: "TrendType \<Rightarrow> TrendType \<Rightarrow> bool" where
  "detect_trend_change current_trend previous_trend =
     (if previous_trend = UNKNOWN then False
      else (previous_trend, current_trend) \<in> set alert_changes)"

section \<open>Errors, positional indexing and tails\<close>

text \<open>
  The exceptions the modelled code can raise: \<open>ValueError\<close> (a negative rolling window,
  a worker pool without workers), \<open>IndexError\<close> (a positional read of an empty frame),
  \<open>RequestError\<close> (a failed network request).
\<close>

datatype py_error = ValueError | IndexError | RequestError

text \<open>\<open>.iloc[i]\<close>: a negative position counts from the end; out of range raises.\<close>

definition iloc :: "'a list \<Rightarrow> int \<Rightarrow> py_error + 'a" where
  "iloc xs i =
     (if 0 \<le> i \<and> i < int (length xs) then Inr (xs ! nat i)
      else if i < 0 \<and> - i \<le> int (length xs) then Inr (xs ! nat (int (length xs) + i))
      else Inl IndexError)"

text \<open>
  \<open>df.tail(n)\<close>: the last \<open>n\<close> rows (all of them when there are fewer), no row for
  \<open>n = 0\<close>, and all rows but the first \<open>-n\<close> for a negative \<open>n\<close>.
\<close>

definition tail :: "int \<Rightarrow> 'a list \<Rightarrow> 'a list" where
  "tail n xs =
     (if n = 0 then []
      else if 0 < n then drop (length xs - nat n) xs
      else drop (nat (- n)) xs)"

section \<open>Candles and the analyzer's parameters\<close>

record candle =
  open_time :: int
  "open" :: real
  high :: fval
  low :: fval
  close :: real
  volume :: real

text \<open>
  \<open>high\<close> and \<open>low\<close> are column entries: the fallback source computes them by a
  multiplication, which can overflow.
\<close>

text \<open>
  The attributes of \<open>TrendAnalyzer\<close>. \<open>bb_std_dev\<close>, \<open>ma_short_period\<close> and
  \<open>ma_long_period\<close> are the attributes \<open>self.bb_std\<close>, \<open>self.ma_short\<close> and
  \<open>self.ma_long\<close>, named after their configuration keys because the data frame has
  columns \<open>bb_std\<close>, \<open>ma_short\<close> and \<open>ma_long\<close>.
\<close>

record analyzer =
  bb_period :: int
  bb_std_dev :: real
  rsi_period :: int
  rsi_overbought :: real
  rsi_oversold :: real
  ma_short_period :: int
  ma_long_period :: int
  sideways_threshold :: real
  trend_confirmation :: int

section \<open>Rolling windows and column operations\<close>

text \<open>
  \<open>Series.rolling(window=w)\<close> with the default \<open>min_periods = w\<close>: a negative window is
  rejected; the value at index \<open>i\<close> is undefined unless the \<open>w\<close> entries ending at \<open>i\<close>
  exist and are all finite numbers, and is the aggregate of these entries otherwise.
\<close>

definition window :: "nat \<Rightarrow> nat \<Rightarrow> 'a list \<Rightarrow> 'a list" where
  "window w i xs = take w (drop (Suc i - w) xs)"

definition rolling_values :: "nat \<Rightarrow> (real list \<Rightarrow> fval) \<Rightarrow> fval list \<Rightarrow> fval list" where
  "rolling_values w agg xs =
     map (\<lambda>i. if Suc i < w then NaN
              else (case those (map the_fin (window w i xs)) of
                      None \<Rightarrow> NaN
                    | Some vs \<Rightarrow> agg vs))
       [0..<length xs]"

definition rolling :: "int \<Rightarrow> (real list \<Rightarrow> fval) \<Rightarrow> fval list \<Rightarrow> py_error + fval list" where
  "rolling w agg xs = (if w < 0 then Inl ValueError else Inr (rolling_values (nat w) agg xs))"

text \<open>
  \<open>.mean()\<close> of a window, and \<open>.std()\<close>: the sample standard deviation (N - 1). The
  library keeps a compensated running sum and a running variance from window to window;
  the model takes the double nearest to the exact sum of the window, divided by the
  count, and the double nearest to the exact standard deviation of the window.
\<close>

definition mean :: "real list \<Rightarrow> fval" where
  "mean vs = (if vs = [] then NaN else ddiv (round_double (sum_list vs)) (Fin (real (length vs))))"

definition std :: "real list \<Rightarrow> fval" where
  "std vs =
     (if length vs \<le> 1 then NaN
      else round_double
             (sqrt (sum_list (map (\<lambda>v. (v - sum_list vs / real (length vs))\<^sup>2) vs)
                      / real (length vs - 1))))"

text \<open>\<open>Series.diff()\<close>, \<open>Series.pct_change()\<close> and \<open>Series.where(cond, other)\<close>.\<close>

definition diff :: "fval list \<Rightarrow> fval list" where
  "diff xs = map (\<lambda>i. if i = 0 then NaN else dsub (xs ! i) (xs ! (i - 1))) [0..<length xs]"

definition pct_change :: "fval list \<Rightarrow> fval list" where
  "pct_change xs =
     map (\<lambda>i. if i = 0 then NaN else dsub (ddiv (xs ! i) (xs ! (i - 1))) (Fin 1))
       [0..<length xs]"

definition where_other :: "(fval \<Rightarrow> bool) \<Rightarrow> fval \<Rightarrow> fval list \<Rightarrow> fval list" where
  "where_other cond other xs = map (\<lambda>x. if cond x then x else other) xs"

definition closes :: "candle list \<Rightarrow> fval list" where
  "closes df = map (\<lambda>c. Fin (close c)) df"

section \<open>The indicators\<close>

text \<open>\<open>TrendAnalyzer.calculate_bollinger_bands\<close>: the six columns it adds, row by row.\<close>

record bollinger =
  bb_middle :: fval
  bb_std :: fval
  bb_upper :: fval
  bb_lower :: fval
  bb_width :: fval
  bb_position :: fval

definition bollinger_row :: "real \<Rightarrow> fval \<Rightarrow> fval \<Rightarrow> fval \<Rightarrow> bollinger" where
  "bollinger_row k c middle sd =
     (let upper = dadd middle (dmul sd (Fin k));
          lower = dsub middle (dmul sd (Fin k))
      in \<lparr>bb_middle = middle, bb_std = sd, bb_upper = upper, bb_lower = lower,
          bb_width = ddiv (dsub upper lower) middle,
          bb_position = ddiv (dsub c lower) (dsub upper lower)\<rparr>)"

definition calculate_bollinger_bands :: "analyzer \<Rightarrow> candle list \<Rightarrow> py_error + bollinger list" where
  "calculate_bollinger_bands self df =
     (case rolling (bb_period self) mean (closes df) of
        Inl e \<Rightarrow> Inl e
      | Inr middle \<Rightarrow>
          (case rolling (bb_period self) std (closes df) of
             Inl e \<Rightarrow> Inl e
           | Inr sd \<Rightarrow>
               Inr (map (\<lambda>i. bollinger_row (bb_std_dev self) (closes df ! i) (middle ! i) (sd ! i))
                      [0..<length df])))"

text \<open>
  \<open>TrendAnalyzer.calculate_rsi\<close>: the rolling means of the gains and of the losses, and
  \<open>100 - 100 / (1 + gain / loss)\<close>.
\<close>

definition rsi_value :: "fval \<Rightarrow> fval \<Rightarrow> fval" where
  "rsi_value gain loss = dsub (Fin 100) (ddiv (Fin 100) (dadd (Fin 1) (ddiv gain loss)))"

definition calculate_rsi :: "analyzer \<Rightarrow> candle list \<Rightarrow> py_error + fval list" where
  "calculate_rsi self df =
     (let delta = diff (closes df) in
      case rolling (rsi_period self) mean (where_other (\<lambda>d. fgt d (Fin 0)) (Fin 0) delta) of
        Inl e \<Rightarrow> Inl e
      | Inr gain \<Rightarrow>
          (case rolling (rsi_period self) mean
                  (map fneg (where_other (\<lambda>d. flt d (Fin 0)) (Fin 0) delta)) of
             Inl e \<Rightarrow> Inl e
           | Inr loss \<Rightarrow> Inr (map (\<lambda>i. rsi_value (gain ! i) (loss ! i)) [0..<length df])))"

text \<open>\<open>TrendAnalyzer.calculate_moving_averages\<close>.\<close>

record averages =
  ma_short :: fval
  ma_long :: fval
  ma_diff_pct :: fval

definition averages_row :: "fval \<Rightarrow> fval \<Rightarrow> averages" where
  "averages_row s l =
     \<lparr>ma_short = s, ma_long = l, ma_diff_pct = dmul (ddiv (dsub s l) l) (Fin 100)\<rparr>"

definition calculate_moving_averages :: "analyzer \<Rightarrow> candle list \<Rightarrow> py_error + averages list" where
  "calculate_moving_averages self df =
     (case rolling (ma_short_period self) mean (closes df) of
        Inl e \<Rightarrow> Inl e
      | Inr s \<Rightarrow>
          (case rolling (ma_long_period self) mean (closes df) of
             Inl e \<Rightarrow> Inl e
           | Inr l \<Rightarrow> Inr (map (\<lambda>i. averages_row (s ! i) (l ! i)) [0..<length df])))"

text \<open>\<open>TrendAnalyzer.calculate_volatility\<close>, with its parameter \<open>period\<close>.\<close>

record volatilities =
  returns :: fval
  volatility :: fval
  price_range_pct :: fval

definition calculate_volatility :: "int \<Rightarrow> candle list \<Rightarrow> py_error + volatilities list" where
  "calculate_volatility period df =
     (let rets = pct_change (closes df) in
      case rolling period std rets of
        Inl e \<Rightarrow> Inl e
      | Inr sd \<Rightarrow>
          Inr (map (\<lambda>i. \<lparr>returns = rets ! i,
                         volatility = dmul (sd ! i) (round_double (sqrt (real_of_int period))),
                         price_range_pct =
                           dmul (ddiv (dsub (high (df ! i)) (low (df ! i))) (Fin (close (df ! i))))
                             (Fin 100)\<rparr>)
                 [0..<length df]))"

text \<open>
  \<open>TrendAnalyzer.get_full_analysis\<close>: the four computations in the order of the source
  (each reads the candle columns only), and the rows of the resulting frame.
\<close>

record analysed =
  bar :: candle
  bands :: bollinger
  rsi :: fval
  mas :: averages
  vol :: volatilities

definition get_full_analysis :: "analyzer \<Rightarrow> candle list \<Rightarrow> py_error + analysed list" where
  "get_full_analysis self df =
     (case calculate_bollinger_bands self df of
        Inl e \<Rightarrow> Inl e
      | Inr bbs \<Rightarrow>
     (case calculate_rsi self df of
        Inl e \<Rightarrow> Inl e
      | Inr rsis \<Rightarrow>
     (case calculate_moving_averages self df of
        Inl e \<Rightarrow> Inl e
      | Inr ms \<Rightarrow>
     (case calculate_volatility 20 df of
        Inl e \<Rightarrow> Inl e
      | Inr vs \<Rightarrow>
          Inr (map (\<lambda>i. \<lparr>bar = df ! i, bands = bbs ! i, rsi = rsis ! i, mas = ms ! i,
                         vol = vs ! i\<rparr>)
                 [0..<length df])))))"

section \<open>The trend classifier\<close>

text \<open>
  The second component of the result of \<open>analyze_trend\<close>: either the one-entry
  dictionary with the key \<open>reason\<close> (its value is the fixed text for insufficient data),
  or the seven latest indicator values. The keys \<open>bb_position\<close>, \<open>bb_width\<close>, \<open>rsi\<close>,
  \<open>ma_diff_pct\<close>, \<open>volatility\<close> and \<open>price_range_pct\<close> carry the prefix \<open>a_\<close> here, the
  frame's columns having these names.
\<close>

record analysis_dict =
  price :: real
  a_bb_position :: fval
  a_bb_width :: fval
  a_rsi :: fval
  a_ma_diff_pct :: fval
  a_volatility :: fval
  a_price_range_pct :: fval

datatype analysis = Reason_insufficient_data | Indicators analysis_dict

text \<open>\<open>sum\<close> of a list of truth values: the number of true entries.\<close>

definition sum_bools :: "bool list \<Rightarrow> nat" where
  "sum_bools bs = sum_list (map (\<lambda>b. if b then 1 else 0) bs)"

text \<open>
  \<open>TrendAnalyzer._determine_trend_type\<close>. The three lists of conditions are built
  before the decision, so the two positional reads of \<open>recent_data\<close> happen (and raise on
  an empty frame) whichever rule would fire. A decimal literal of the source is the
  double nearest to it; the products with \<open>1 + sideways_threshold / 2\<close> and
  \<open>1 - sideways_threshold / 2\<close> are computed in double arithmetic.
\<close>

definition determine_trend_type ::
  "analyzer \<Rightarrow> analysed list \<Rightarrow> analysis_dict \<Rightarrow> py_error + TrendType" where
  "determine_trend_type self recent_data analysis =
     (let bb_position = a_bb_position analysis;
          bb_width = a_bb_width analysis;
          rsi = a_rsi analysis;
          ma_diff_pct = a_ma_diff_pct analysis;
          sideways_conditions =
            [flt bb_width (Fin (sideways_threshold self)),
             flt (Fin 30) rsi \<and> flt rsi (Fin 70),
             flt (fabs ma_diff_pct) (Fin 2),
             flt (round_double 0.2) bb_position \<and> flt bb_position (round_double 0.8)]
      in case iloc recent_data (- 1) of
           Inl e \<Rightarrow> Inl e
         | Inr last_row \<Rightarrow>
        (case iloc recent_data 0 of
           Inl e \<Rightarrow> Inl e
         | Inr first_row \<Rightarrow>
             (let uptrend_conditions =
                    [fgt ma_diff_pct (Fin 1),
                     fgt bb_position (round_double 0.7),
                     fgt (Fin (close (bar last_row)))
                       (dmul (Fin (close (bar first_row)))
                          (dadd (Fin 1) (ddiv (Fin (sideways_threshold self)) (Fin 2))))];
                  downtrend_conditions =
                    [flt ma_diff_pct (Fin (- 1)),
                     flt bb_position (round_double 0.3),
                     flt (Fin (close (bar last_row)))
                       (dmul (Fin (close (bar first_row)))
                          (dsub (Fin 1) (ddiv (Fin (sideways_threshold self)) (Fin 2))))]
              in if sum_bools sideways_conditions \<ge> 3 then Inr SIDEWAYS
                 else if sum_bools uptrend_conditions \<ge> 2 then Inr UPTREND
                 else if sum_bools downtrend_conditions \<ge> 2 then Inr DOWNTREND
                 else Inr SIDEWAYS)))"

text \<open>\<open>TrendAnalyzer.analyze_trend\<close>, on the frame that \<open>get_full_analysis\<close> returns.\<close>

definition required_rows :: "analyzer \<Rightarrow> int" where
  "required_rows self = max (bb_period self) (max (rsi_period self) (ma_long_period self))"

definition analyze_trend :: "analyzer \<Rightarrow> analysed list \<Rightarrow> py_error + TrendType \<times> analysis" where
  "analyze_trend self df =
     (if int (length df) < required_rows self then Inr (UNKNOWN, Reason_insufficient_data)
      else case iloc df (- 1) of
             Inl e \<Rightarrow> Inl e
           | Inr latest \<Rightarrow>
               (let recent_data = tail (trend_confirmation self) df;
                    analysis =
                      \<lparr>price = close (bar latest),
                       a_bb_position = bb_position (bands latest),
                       a_bb_width = bb_width (bands latest),
                       a_rsi = rsi latest,
                       a_ma_diff_pct = ma_diff_pct (mas latest),
                       a_volatility = volatility (vol latest),
                       a_price_range_pct = price_range_pct (vol latest)\<rparr>
                in case determine_trend_type self recent_data analysis of
                     Inl e \<Rightarrow> Inl e
                   | Inr trend_type \<Rightarrow> Inr (trend_type, Indicators analysis)))"

text \<open>
  The classification rules in the words of the specification, for comparison with the
  code: the conditions are read on the latest row; \<open>at_least_3_of_4\<close> and
  \<open>at_least_2_of_3\<close> say which combinations of conditions suffice; the two boundary
  closes are those of the trailing window of the last \<open>trend_confirmation\<close> rows (the
  whole frame when it has fewer rows). The numbers are doubles and the arithmetic is
  that of doubles, as in every program that evaluates the rules.
\<close>

definition at_least_3_of_4 :: "bool \<Rightarrow> bool \<Rightarrow> bool \<Rightarrow> bool \<Rightarrow> bool" where
  "at_least_3_of_4 a b c d = ((a \<and> b \<and> c) \<or> (a \<and> b \<and> d) \<or> (a \<and> c \<and> d) \<or> (b \<and> c \<and> d))"

definition at_least_2_of_3 :: "bool \<Rightarrow> bool \<Rightarrow> bool \<Rightarrow> bool" where
  "at_least_2_of_3 a b c = ((a \<and> b) \<or> (a \<and> c) \<or> (b \<and> c))"

definition spec_classify :: "analyzer \<Rightarrow> analysed list \<Rightarrow> TrendType" where
  "spec_classify self df =
     (let latest = df ! (length df - 1);
          n = nat (trend_confirmation self);
          close_first = close (bar (df ! (if n \<le> length df then length df - n else 0)));
          close_last = close (bar latest);
          thr = sideways_threshold self
      in if at_least_3_of_4
              (flt (bb_width (bands latest)) (Fin thr))
              (flt (Fin 30) (rsi latest) \<and> flt (rsi latest) (Fin 70))
              (flt (fabs (ma_diff_pct (mas latest))) (Fin 2))
              (flt (round_double 0.2) (bb_position (bands latest))
                 \<and> flt (bb_position (bands latest)) (round_double 0.8))
         then SIDEWAYS
         else if at_least_2_of_3
              (flt (Fin 1) (ma_diff_pct (mas latest)))
              (flt (round_double 0.7) (bb_position (bands latest)))
              (flt (dmul (Fin close_first) (dadd (Fin 1) (ddiv (Fin thr) (Fin 2))))
                 (Fin close_last))
         then UPTREND
         else if at_least_2_of_3
              (flt (ma_diff_pct (mas latest)) (Fin (- 1)))
              (flt (bb_position (bands latest)) (round_double 0.3))
              (flt (Fin close_last)
                 (dmul (Fin close_first) (dsub (Fin 1) (ddiv (Fin thr) (Fin 2)))))
         then DOWNTREND
         else SIDEWAYS)"

text \<open>
  The analyzer that \<open>TrendAnalyzer.__init__\<close> builds from an empty configuration: every
  parameter at its default. The default \<open>0.02\<close> of \<open>sideways_threshold\<close> is the double
  nearest to it, \<open>5764607523034235 / 2^58\<close>.
\<close>

definition default_analyzer :: analyzer where
  "default_analyzer =
     \<lparr>bb_period = 20, bb_std_dev = 2, rsi_period = 14, rsi_overbought = 70, rsi_oversold = 30,
      ma_short_period = 10, ma_long_period = 30,
      sideways_threshold = 5764607523034235 / 288230376151711744,
      trend_confirmation = 3\<rparr>"



text \<open>
  The two rows of Bollinger columns of the scenario with identical closes of 100: before
  the first full window, and from it on.
\<close>

definition undefined_bands :: bollinger where
  "undefined_bands =
     \<lparr>bb_middle = NaN, bb_std = NaN, bb_upper = NaN, bb_lower = NaN, bb_width = NaN,
      bb_position = NaN\<rparr>"

definition flat_bands :: bollinger where
  "flat_bands =
     \<lparr>bb_middle = Fin 100, bb_std = Fin 0, bb_upper = Fin 100, bb_lower = Fin 100,
      bb_width = Fin 0, bb_position = NaN\<rparr>"

section \<open>The fallback data source\<close>

text \<open>
  \<open>AlternativeDataSource\<close> of \<open>alternative_data.py\<close>. \<open>symbol_mapping\<close> gives the
  CoinGecko identifier of each supported symbol. A network request is a parameter of the
  model: \<open>request coin_id days\<close> is the decoded answer of the market-chart request, and
  \<open>None\<close> when the request or its decoding raises (the source catches every exception
  and returns \<open>None\<close>; an answer without prices makes \<open>set_index\<close> raise on the empty
  frame, with the same result). Columns that no computation reads (\<open>close_time\<close>) are
  left out.

  \<open>to_datetime\<close> is \<open>pd.to_datetime(timestamp, unit='ms')\<close>: the instant is kept as a count
  of nanoseconds in 64 bits, and the conversion raises for a count of milliseconds
  outside that range; the exception ends \<open>get_historical_data_coingecko\<close> with \<open>None\<close>.

  The high and the low of a candle are the products of the price with the literals
  \<open>1.01\<close> and \<open>0.99\<close>, in double arithmetic.
\<close>

definition symbol_mapping :: "(string \<times> string) list" where
  "symbol_mapping =
     [(''BTCUSDT'', ''bitcoin''), (''ETHUSDT'', ''ethereum''), (''BNBUSDT'', ''binancecoin''),
      (''ADAUSDT'', ''cardano''), (''DOTUSDT'', ''polkadot''), (''LINKUSDT'', ''chainlink''),
      (''LTCUSDT'', ''litecoin''), (''XRPUSDT'', ''ripple'')]"

record market_chart =
  prices :: "(int \<times> real) list"
  total_volumes :: "(int \<times> real) list"

definition to_datetime :: "int \<Rightarrow> int option" where
  "to_datetime ms =
     (if - 9223372036854 \<le> ms \<and> ms \<le> 9223372036854 then Some ms else None)"

definition coingecko_candle :: "int \<Rightarrow> real \<Rightarrow> real \<Rightarrow> candle" where
  "coingecko_candle timestamp p v =
     \<lparr>open_time = timestamp, open = p, high = dmul (Fin p) (round_double 1.01),
      low = dmul (Fin p) (round_double 0.99), close = p, volume = v\<rparr>"

definition get_historical_data_coingecko ::
  "(string \<Rightarrow> real \<Rightarrow> market_chart option) \<Rightarrow> string \<Rightarrow> real \<Rightarrow> candle list option" where
  "get_historical_data_coingecko request symbol days =
     (case map_of symbol_mapping symbol of
        None \<Rightarrow> None
      | Some coin_id \<Rightarrow>
          (case request coin_id days of
             None \<Rightarrow> None
           | Some data \<Rightarrow>
               if prices data = [] then None
               else
                 (case those (map (\<lambda>(timestamp, p). to_datetime timestamp) (prices data)) of
                    None \<Rightarrow> None
                  | Some stamps \<Rightarrow>
                      Some (map (\<lambda>i. coingecko_candle (stamps ! i) (snd (prices data ! i))
                                       (if i < length (total_volumes data)
                                        then snd (total_volumes data ! i) else 0))
                              [0..<length (prices data)]))))"

definition interval_to_days :: "(string \<times> real) list" where
  "interval_to_days =
     [(''1m'', 0.1), (''5m'', 0.2), (''15m'', 0.5), (''1h'', 1), (''4h'', 2), (''1d'', 7)]"

definition get_klines_alternative ::
  "(string \<Rightarrow> real \<Rightarrow> market_chart option) \<Rightarrow> string \<Rightarrow> string \<Rightarrow> int \<Rightarrow> candle list option" where
  "get_klines_alternative request symbol interval limit =
     (let days = (case map_of interval_to_days interval of None \<Rightarrow> 1 | Some d \<Rightarrow> d) in
      case get_historical_data_coingecko request symbol days of
        None \<Rightarrow> None
      | Some df \<Rightarrow>
          if length df > 0
          then Some (if int (length df) > limit then tail limit df else df)
          else None)"

text \<open>
  \<open>get_current_price_coingecko\<close>: \<open>request_price coin_id\<close> is the price the simple-price
  request answers, \<open>None\<close> when it raises.
\<close>

definition get_current_price_coingecko :: "(string \<Rightarrow> real option) \<Rightarrow> string \<Rightarrow> real option" where
  "get_current_price_coingecko request_price symbol =
     (case map_of symbol_mapping symbol of
        None \<Rightarrow> None
      | Some coin_id \<Rightarrow> request_price coin_id)"

section \<open>The hybrid data source\<close>

text \<open>
  What a call of a method of the primary source (\<open>BinanceAPI\<close>) does: it raises or it
  returns. \<open>BinanceAPI.get_klines\<close> and \<open>get_ticker_price\<close> re-raise every failure of
  the request.
\<close>

datatype 'a outcome = Raises py_error | Returns 'a

text \<open>
  \<open>HybridDataSource\<close>: the flag \<open>use_alternative\<close>, and a counter of the calls made to the
  primary source (not a field of the class: it records that a method of \<open>binance_api\<close> was
  invoked).
\<close>

record hybrid =
  use_alternative :: bool
  binance_calls :: nat

text \<open>
  \<open>HybridDataSource.get_klines\<close>. The parameter \<open>binance\<close> is what
  \<open>binance_api.get_klines(symbol, interval, limit)\<close> does if it is called now.
\<close>

definition get_klines ::
  "hybrid \<Rightarrow> candle list option outcome \<Rightarrow> (string \<Rightarrow> real \<Rightarrow> market_chart option)
     \<Rightarrow> string \<Rightarrow> string \<Rightarrow> int \<Rightarrow> candle list option \<times> hybrid" where
  "get_klines self binance request symbol interval limit =
     (if \<not> use_alternative self then
        (case binance of
           Returns df \<Rightarrow>
             (if df \<noteq> None \<and> length (the df) > 0
              then (df, self\<lparr>binance_calls := binance_calls self + 1\<rparr>)
              else (get_klines_alternative request symbol interval limit,
                    self\<lparr>binance_calls := binance_calls self + 1\<rparr>))
         | Raises e \<Rightarrow>
             (get_klines_alternative request symbol interval limit,
              self\<lparr>binance_calls := binance_calls self + 1, use_alternative := True\<rparr>))
      else (get_klines_alternative request symbol interval limit, self))"

text \<open>\<open>HybridDataSource.get_ticker_price\<close>.\<close>

definition get_ticker_price ::
  "hybrid \<Rightarrow> real option outcome \<Rightarrow> (string \<Rightarrow> real option) \<Rightarrow> string
     \<Rightarrow> real option \<times> hybrid" where
  "get_ticker_price self binance request_price symbol =
     (if \<not> use_alternative self then
        (case binance of
           Returns p \<Rightarrow>
             (if p \<noteq> None
              then (p, self\<lparr>binance_calls := binance_calls self + 1\<rparr>)
              else (get_current_price_coingecko request_price symbol,
                    self\<lparr>binance_calls := binance_calls self + 1\<rparr>))
         | Raises e \<Rightarrow>
             (get_current_price_coingecko request_price symbol,
              self\<lparr>binance_calls := binance_calls self + 1, use_alternative := True\<rparr>))
      else (get_current_price_coingecko request_price symbol, self))"

text \<open>
  A sequence of calls on one instance. Each call carries what the primary source would
  do if it were invoked at that moment and the answers of the fallback requests at that
  moment; \<open>run_calls\<close> threads the instance through the calls and collects the replies.
\<close>

datatype call =
  Get_klines "candle list option outcome" "string \<Rightarrow> real \<Rightarrow> market_chart option" string string int
| Get_ticker_price "real option outcome" "string \<Rightarrow> real option" string

datatype reply = Klines "candle list option" | Price "real option"

fun do_call :: "hybrid \<Rightarrow> call \<Rightarrow> reply \<times> hybrid" where
  "do_call self (Get_klines binance request symbol interval limit) =
     (case get_klines self binance request symbol interval limit of
        (df, self') \<Rightarrow> (Klines df, self'))"
| "do_call self (Get_ticker_price binance request_price symbol) =
     (case get_ticker_price self binance request_price symbol of
        (p, self') \<Rightarrow> (Price p, self'))"

fun run_calls :: "hybrid \<Rightarrow> call list \<Rightarrow> reply list \<times> hybrid" where
  "run_calls self [] = ([], self)"
| "run_calls self (c # cs) =
     (case do_call self c of
        (r, self') \<Rightarrow> (case run_calls self' cs of (rs, self'') \<Rightarrow> (r # rs, self'')))"

text \<open>The reply of the fallback source alone to a call.\<close>

fun fallback_reply :: "call \<Rightarrow> reply" where
  "fallback_reply (Get_klines binance request symbol interval limit) =
     Klines (get_klines_alternative request symbol interval limit)"
| "fallback_reply (Get_ticker_price binance request_price symbol) =
     Price (get_current_price_coingecko request_price symbol)"

text \<open>
  \<open>HybridDataSource.test_connectivity\<close>: a dictionary with the key \<open>binance\<close> (false when
  the probe of the primary raises) updated with the two entries of
  \<open>AlternativeDataSource.test_connectivity\<close>. The three parameters are the results of
  the three probes.
\<close>

definition dict_set :: "('k \<times> 'v) list \<Rightarrow> 'k \<Rightarrow> 'v \<Rightarrow> ('k \<times> 'v) list" where
  "dict_set d k v = (if k \<in> fst ` set d then map (\<lambda>(k', v'). if k' = k then (k', v) else (k', v')) d
                     else d @ [(k, v)])"

definition dict_update :: "('k \<times> 'v) list \<Rightarrow> ('k \<times> 'v) list \<Rightarrow> ('k \<times> 'v) list" where
  "dict_update d e = foldl (\<lambda>acc (k, v). dict_set acc k v) d e"

definition alternative_test_connectivity :: "bool \<Rightarrow> bool \<Rightarrow> (string \<times> bool) list" where
  "alternative_test_connectivity coingecko cryptocompare =
     dict_set (dict_set [] ''coingecko'' coingecko) ''cryptocompare'' cryptocompare"

definition test_connectivity :: "bool outcome \<Rightarrow> bool \<Rightarrow> bool \<Rightarrow> (string \<times> bool) list" where
  "test_connectivity binance coingecko cryptocompare =
     dict_update
       (dict_set [] ''binance'' (case binance of Returns b \<Rightarrow> b | Raises e \<Rightarrow> False))
       (alternative_test_connectivity coingecko cryptocompare)"

section \<open>The monitor\<close>

text \<open>
  The calls of the alert collaborator are recorded in a log. The texts of the system
  alerts are fixed literals of \<open>monitor.py\<close>; each is a constructor here, and the alert of
  the loop carries the exception it reports.
\<close>

datatype level = INFO | WARNING | ERROR

datatype system_message =
  Connectivity_test_failed | Monitoring_started | Monitoring_stopped | Loop_error py_error

datatype alert =
  System_alert level system_message
| Trend_change_alert string string TrendType TrendType analysis_dict real

text \<open>
  \<open>TrendMonitor\<close>. \<open>monitor_thread\<close> says whether a loop thread has been created and
  started; \<open>alerts\<close> and \<open>slept\<close> are the logs of the alerts sent and of the durations
  slept by the loop.
\<close>

record monitor =
  symbols :: "string list"
  timeframes :: "string list"
  monitoring_interval :: real
  api :: hybrid
  analyzer :: analyzer
  trend_history :: "string \<rightharpoonup> TrendType"
  is_monitoring :: bool
  monitor_thread :: bool
  alerts :: "alert list"
  slept :: "real list"

text \<open>Truth value of a dictionary: it is true when it has an entry.\<close>

definition truthy :: "('k \<times> 'v) list \<Rightarrow> bool" where
  "truthy d = (d \<noteq> [])"

text \<open>
  \<open>TrendMonitor.start_monitoring\<close>; the three parameters are the results of the probes
  that \<open>self.api.test_connectivity()\<close> makes.
\<close>

definition start_monitoring :: "monitor \<Rightarrow> bool outcome \<Rightarrow> bool \<Rightarrow> bool \<Rightarrow> monitor" where
  "start_monitoring self binance coingecko cryptocompare =
     (if is_monitoring self then self
      else if \<not> truthy (test_connectivity binance coingecko cryptocompare)
      then self\<lparr>alerts := alerts self @ [System_alert ERROR Connectivity_test_failed]\<rparr>
      else self\<lparr>is_monitoring := True, monitor_thread := True,
                alerts := alerts self @ [System_alert INFO Monitoring_started]\<rparr>)"

text \<open>
  The environment of one round: what the primary source does for a pair, the answers of
  the fallback's requests, and the time the round takes.
\<close>

record world =
  binance_klines :: "string \<Rightarrow> string \<Rightarrow> candle list option outcome"
  chart_request :: "string \<Rightarrow> real \<Rightarrow> market_chart option"
  elapsed :: real

text \<open>
  \<open>TrendMonitor._monitor_symbol_timeframe\<close>. Every exception raised inside is caught and
  makes the result false: a missing frame (\<open>df.empty\<close> on \<open>None\<close>), an error of the
  analysis, the missing key \<open>price\<close>. The history entry is written before the alert.
\<close>

definition monitor_symbol_timeframe :: "monitor \<Rightarrow> world \<Rightarrow> string \<Rightarrow> string \<Rightarrow> bool \<times> monitor" where
  "monitor_symbol_timeframe self w symbol timeframe =
     (case get_klines (api self) (binance_klines w symbol timeframe) (chart_request w)
             symbol timeframe 100 of
        (df, api') \<Rightarrow>
          (let self1 = self\<lparr>api := api'\<rparr> in
           case df of
             None \<Rightarrow> (False, self1)
           | Some rows \<Rightarrow>
               if rows = [] then (False, self1)
               else
                 (case get_full_analysis (analyzer self1) rows of
                    Inl e \<Rightarrow> (False, self1)
                  | Inr df_analyzed \<Rightarrow>
                      (case analyze_trend (analyzer self1) df_analyzed of
                         Inl e \<Rightarrow> (False, self1)
                       | Inr (current_trend, analysis) \<Rightarrow>
                           (let key = symbol @ ''_'' @ timeframe;
                                previous_trend =
                                  (case trend_history self1 key of
                                     None \<Rightarrow> UNKNOWN
                                   | Some t \<Rightarrow> t);
                                self2 = self1\<lparr>trend_history :=
                                          (trend_history self1)(key \<mapsto> current_trend)\<rparr>
                            in if detect_trend_change current_trend previous_trend
                               then (case analysis of
                                       Reason_insufficient_data \<Rightarrow> (False, self2)
                                     | Indicators a \<Rightarrow>
                                         (True,
                                          self2\<lparr>alerts := alerts self2 @
                                            [Trend_change_alert symbol timeframe previous_trend
                                               current_trend a (price a)]\<rparr>))
                               else (True, self2))))))"

text \<open>
  \<open>TrendMonitor._perform_monitoring_round\<close>. The worker pool is built first, with
  \<open>min(10, len(symbols) * len(timeframes))\<close> workers; the constructor of the pool raises
  \<open>ValueError\<close> when that number is not positive. The tasks are then submitted symbol by
  symbol and timeframe by timeframe; the model runs them in the order of submission.
\<close>

definition max_workers :: "monitor \<Rightarrow> int" where
  "max_workers self = min 10 (int (length (symbols self)) * int (length (timeframes self)))"

definition perform_monitoring_round :: "monitor \<Rightarrow> world \<Rightarrow> py_error + monitor" where
  "perform_monitoring_round self w =
     (if max_workers self \<le> 0 then Inl ValueError
      else Inr (foldl (\<lambda>s (symbol, timeframe). snd (monitor_symbol_timeframe s w symbol timeframe))
                  self (List.product (symbols self) (timeframes self))))"

text \<open>
  One pass through the body of \<open>TrendMonitor._monitoring_loop\<close>: the round and the sleep
  until the next one, or, when an exception escapes the round, the system alert and the
  sleep of ten seconds.
\<close>

definition loop_iteration :: "monitor \<Rightarrow> world \<Rightarrow> monitor" where
  "loop_iteration self w =
     (case perform_monitoring_round self w of
        Inr self' \<Rightarrow>
          self'\<lparr>slept := slept self' @ [max 0 (monitoring_interval self' - elapsed w)]\<rparr>
      | Inl e \<Rightarrow>
          self\<lparr>alerts := alerts self @ [System_alert ERROR (Loop_error e)],
               slept := slept self @ [10]\<rparr>)"

text \<open>
  The loop \<open>while self.is_monitoring\<close> runs as long as the flag is set, possibly for ever.
  \<open>monitoring_loop self ws\<close> is the monitor after the passes whose environments the list
  \<open>ws\<close> gives, one per pass, or after the loop has left earlier.
\<close>

fun monitoring_loop :: "monitor \<Rightarrow> world list \<Rightarrow> monitor" where
  "monitoring_loop self [] = self"
| "monitoring_loop self (w # ws) =
     (if is_monitoring self then monitoring_loop (loop_iteration self w) ws else self)"

section \<open>Example inputs\<close>

text \<open>
  A frame of thirty analysed rows for the default analyzer: twenty-nine quiet rows at a
  close of 100 and a last row that has risen to 110, with a wide band, the price near the
  upper band and the short average above the long one.
\<close>

definition example_row :: "real \<Rightarrow> fval \<Rightarrow> fval \<Rightarrow> fval \<Rightarrow> fval \<Rightarrow> analysed" where
  "example_row c width pos r d =
     \<lparr>bar = \<lparr>open_time = 0, open = c, high = Fin c, low = Fin c, close = c, volume = 1\<rparr>,
      bands = \<lparr>bb_middle = Fin c, bb_std = Fin 1, bb_upper = Fin (c + 2), bb_lower = Fin (c - 2),
               bb_width = width, bb_position = pos\<rparr>,
      rsi = r,
      mas = \<lparr>ma_short = Fin c, ma_long = Fin c, ma_diff_pct = d\<rparr>,
      vol = \<lparr>returns = Fin 0, volatility = NaN, price_range_pct = Fin 0\<rparr>\<rparr>"

definition example_frame :: "analysed list" where
  "example_frame =
     replicate 29 (example_row 100 (Fin 0.015625) (Fin 0.5) (Fin 50) (Fin 0))
       @ [example_row 110 (Fin 0.0625) (Fin 0.875) (Fin 75) (Fin 1.5)]"

text \<open>
  A frame of thirty rows on the boundary of the third uptrend condition: the first close
  of the confirmation window is 1 and the last close is the double nearest to 1.01,
  which is also the value of \<open>1 * (1 + 0.02 / 2)\<close> in double arithmetic; the short average
  is above the long one and the price is in the middle of a wide band.
\<close>

definition boundary_frame :: "analysed list" where
  "boundary_frame =
     replicate 29 (example_row 1 (Fin 0.0625) (Fin 0.5) (Fin 75) (Fin 1.5))
       @ [example_row (4548635623644201 / 4503599627370496) (Fin 0.0625) (Fin 0.5) (Fin 75)
            (Fin 1.5)]"

text \<open>
  A hybrid source before any call and after one failed call of the primary; the answer
  of the fallback's market-chart request with the single price 30000; a candle of the
  primary; and two calls at which the primary would succeed.
\<close>

definition fresh :: hybrid where
  "fresh = \<lparr>use_alternative = False, binance_calls = 0\<rparr>"

definition degraded :: hybrid where
  "degraded = \<lparr>use_alternative = True, binance_calls = 1\<rparr>"

definition example_chart :: market_chart where
  "example_chart = \<lparr>prices = [(0, 30000)], total_volumes = [(0, 5)]\<rparr>"

definition example_candle :: candle where
  "example_candle =
     \<lparr>open_time = 0, open = 29990, high = Fin 30010, low = Fin 29980, close = 30000,
      volume = 5\<rparr>"

definition example_calls :: "call list" where
  "example_calls =
     [Get_klines (Returns (Some [example_candle])) (\<lambda>coin_id days. Some example_chart)
        ''BTCUSDT'' ''1h'' 100,
      Get_ticker_price (Returns (Some 30000)) (\<lambda>coin_id. Some 30001) ''BTCUSDT'']"

text \<open>The answer of the market-chart request with the single price 3.\<close>

definition small_chart :: market_chart where
  "small_chart = \<lparr>prices = [(0, 3)], total_volumes = [(0, 5)]\<rparr>"

text \<open>
  A running monitor without symbols, and an environment in which every request succeeds.
\<close>

definition quiet_world :: world where
  "quiet_world =
     \<lparr>binance_klines = (\<lambda>symbol timeframe. Returns (Some [example_candle])),
      chart_request = (\<lambda>coin_id days. Some example_chart),
      elapsed = 2\<rparr>"

definition idle_monitor :: monitor where
  "idle_monitor =
     \<lparr>symbols = [], timeframes = [''1h'', ''4h''], monitoring_interval = 60, api = fresh,
      analyzer = default_analyzer, trend_history = Map.empty, is_monitoring = True,
      monitor_thread = True, alerts = [], slept = []\<rparr>"





section \<open>Rounding to double precision\<close>

lemma pow2_powr: "pow2 k = 2 powr of_int k"
  by (simp add: pow2_def powr_real_of_int inverse_eq_divide)

lemma pow2_pos: "0 < pow2 k"
  by (simp add: pow2_powr)

lemma pow2_add: "pow2 (a + b) = pow2 a * pow2 b"
  by (simp add: pow2_powr powr_add)


lemma pow2_strict_mono: "a < b \<Longrightarrow> pow2 a < pow2 b"
  by (simp add: pow2_powr)

lemma round_half_even_bounds: "\<lfloor>q\<rfloor> \<le> round_half_even q \<and> round_half_even q \<le> \<lceil>q\<rceil>"
  by (auto simp: round_half_even_def Let_def ceiling_altdef)

lemma round_half_even_abs:
  assumes "\<bar>q\<bar> < of_int n"
  shows "\<bar>real_of_int (round_half_even q)\<bar> \<le> of_int n"
proof -
  have "q < of_int n" and "- of_int n < q" using assms by auto
  then have "\<lceil>q\<rceil> \<le> n" and "- n \<le> \<lfloor>q\<rfloor>"
    by (simp_all add: ceiling_le_iff le_floor_iff)
  with round_half_even_bounds [of q] have "round_half_even q \<le> n" and "- n \<le> round_half_even q"
    by linarith+
  then show ?thesis
    by (metis abs_le_iff minus_le_iff of_int_le_iff of_int_minus)
qed

lemma ulp_exponent_eval:
  assumes "pow2 k \<le> \<bar>x\<bar>" and "\<bar>x\<bar> < pow2 (k + 1)" and "- 1022 \<le> k"
  shows "ulp_exponent x = k - 52"
proof -
  have "0 < \<bar>x\<bar>" using assms(1) pow2_pos [of k] by linarith
  moreover have "2 powr real_of_int k \<le> \<bar>x\<bar> \<and> \<bar>x\<bar> < 2 powr (real_of_int k + 1)"
    using assms(1,2) by (simp add: pow2_powr)
  ultimately have "\<lfloor>log 2 \<bar>x\<bar>\<rfloor> = k"
    by (simp add: floor_log_eq_powr_iff)
  then show ?thesis using assms(3) by (simp add: ulp_exponent_def)
qed

lemma round_double_eval:
  assumes "pow2 k \<le> \<bar>x\<bar>" and "\<bar>x\<bar> < pow2 (k + 1)" and "- 1022 \<le> k" and "k \<le> 1022"
  shows "round_double x
           = Fin (of_int (round_half_even (x / pow2 (k - 52))) * pow2 (k - 52))"
proof -
  let ?e = "k - 52"
  let ?m = "round_half_even (x / pow2 ?e)"
  have e: "ulp_exponent x = ?e" by (rule ulp_exponent_eval [OF assms(1-3)])
  have "53 + ?e = k + 1" by simp
  then have s: "pow2 (k + 1) = pow2 53 * pow2 ?e" using pow2_add [of 53 ?e] by (simp add: add.commute)
  have x0: "x \<noteq> 0" using assms(1) pow2_pos [of k] by auto
  have "\<bar>x / pow2 ?e\<bar> = \<bar>x\<bar> / pow2 ?e" using pow2_pos [of ?e] by simp
  also have "\<dots> < pow2 (k + 1) / pow2 ?e"
    using assms(2) pow2_pos [of ?e] by (simp add: divide_strict_right_mono)
  also have "\<dots> = pow2 53"
    using pow2_pos [of ?e] by (simp add: s)
  also have "\<dots> = of_int (2 ^ 53)" by (simp add: pow2_def)
  finally have "\<bar>real_of_int ?m\<bar> \<le> of_int (2 ^ 53)" by (rule round_half_even_abs)
  then have "\<bar>real_of_int ?m\<bar> \<le> pow2 53" by (simp add: pow2_def)
  then have "\<bar>real_of_int ?m * pow2 ?e\<bar> \<le> pow2 53 * pow2 ?e"
    using pow2_pos [of ?e] by (simp add: abs_mult mult_right_mono)
  also have "\<dots> = pow2 (k + 1)" by (simp add: s)
  also have "\<dots> < pow2 1024" using assms(4) by (intro pow2_strict_mono) simp
  finally have "\<not> pow2 1024 \<le> \<bar>real_of_int ?m * pow2 ?e\<bar>" by simp
  then show ?thesis using x0 by (simp add: round_double_def e Let_def)
qed

lemma pow2_numeral [simp]: "pow2 (numeral n) = 2 ^ numeral n"
  by (simp add: pow2_def)

lemma pow2_neg_numeral [simp]: "pow2 (- numeral n) = 1 / 2 ^ numeral n"
  by (simp add: pow2_def)

lemma pow2_0 [simp]: "pow2 0 = 1" by (simp add: pow2_def)

lemma pow2_1 [simp]: "pow2 1 = 2" by (simp add: pow2_def)

lemma pow2_neg_1 [simp]: "pow2 (- 1) = 1 / 2" by (simp add: pow2_def)

lemma round_double_0 [simp]: "round_double 0 = Fin 0"
  by (simp add: round_double_def)

lemma rnd_simps [simp]: "rnd NaN = NaN" "rnd PInf = PInf" "rnd NInf = NInf"
  by simp_all

lemma double_100: "round_double 100 = Fin 100"
  using round_double_eval [of 6 100] by (simp add: round_half_even_def Let_def)

lemma double_2000: "round_double 2000 = Fin 2000"
  using round_double_eval [of 10 2000] by (simp add: round_half_even_def Let_def)



















section \<open>Transition predicate: the allow-list\<close>

text \<open>
  Claim C2. For every pair of trend values, \<open>detect_trend_change\<close> is true exactly on
  the six ordered pairs (previous, current) of the allow-list; it is false for every
  current trend when the previous trend is \<open>UNKNOWN\<close>, and false when previous and
  current trend are the same.
\<close>

theorem detect_trend_change_allow_list:
  "detect_trend_change cur prev =
     ((prev = SIDEWAYS \<and> cur = UPTREND) \<or> (prev = SIDEWAYS \<and> cur = DOWNTREND) \<or>
      (prev = UPTREND \<and> cur = SIDEWAYS) \<or> (prev = DOWNTREND \<and> cur = SIDEWAYS) \<or>
      (prev = UPTREND \<and> cur = DOWNTREND) \<or> (prev = DOWNTREND \<and> cur = UPTREND))
   \<and> detect_trend_change cur UNKNOWN = False
   \<and> detect_trend_change cur cur = False"
  by (cases cur; cases prev) (simp_all add: detect_trend_change_def alert_changes_def)

section \<open>Classification: insufficient data and rule order\<close>

lemma iloc_last: "xs \<noteq> [] \<Longrightarrow> iloc xs (- 1) = Inr (xs ! (length xs - 1))"
  by (cases xs) (simp_all add: iloc_def)

lemma iloc_first: "xs \<noteq> [] \<Longrightarrow> iloc xs 0 = Inr (xs ! 0)"
  by (simp add: iloc_def)

lemma tail_nonempty: "xs \<noteq> [] \<Longrightarrow> 1 \<le> n \<Longrightarrow> tail n xs \<noteq> []"
proof -
  assume "xs \<noteq> []" and "1 \<le> n"
  then have "0 < length xs" and "0 < nat n" by simp_all
  then have "length xs - nat n < length xs" by arith
  then show ?thesis using \<open>1 \<le> n\<close> by (simp add: tail_def)
qed

lemma tail_last:
  "xs \<noteq> [] \<Longrightarrow> 1 \<le> n \<Longrightarrow> tail n xs ! (length (tail n xs) - 1) = xs ! (length xs - 1)"
proof -
  assume "xs \<noteq> []" and "1 \<le> n"
  then have "0 < length xs" and "0 < nat n" by simp_all
  then have "length xs - nat n + (length xs - (length xs - nat n) - 1) = length xs - 1" by arith
  then show ?thesis using \<open>1 \<le> n\<close> by (simp add: tail_def)
qed

lemma tail_first:
  "xs \<noteq> [] \<Longrightarrow> 1 \<le> n
   \<Longrightarrow> tail n xs ! 0 = xs ! (if nat n \<le> length xs then length xs - nat n else 0)"
  by (auto simp: tail_def)

lemma sum_bools_3_of_4: "(3 \<le> sum_bools [a, b, c, d]) = at_least_3_of_4 a b c d"
  by (auto simp: sum_bools_def at_least_3_of_4_def)

lemma sum_bools_2_of_3: "(2 \<le> sum_bools [a, b, c]) = at_least_2_of_3 a b c"
  by (auto simp: sum_bools_def at_least_2_of_3_def)

lemma determine_trend_type_never_unknown: "determine_trend_type self rd a \<noteq> Inr UNKNOWN"
  by (auto simp: determine_trend_type_def Let_def split: sum.splits)

lemma length_example_frame: "length example_frame = 30"
  by (simp add: example_frame_def)

text \<open>
  Claim C5. On a frame with fewer rows than the largest of the Bollinger, RSI and long
  moving-average periods, \<open>analyze_trend\<close> returns \<open>UNKNOWN\<close> with the insufficient-data
  reason, whatever the rows hold; on a frame with at least that many rows it never
  returns \<open>UNKNOWN\<close>.
\<close>

theorem analyze_trend_insufficient_data:
  "(int (length df) < max (bb_period self) (max (rsi_period self) (ma_long_period self)) \<longrightarrow>
      analyze_trend self df = Inr (UNKNOWN, Reason_insufficient_data))
   \<and> (max (bb_period self) (max (rsi_period self) (ma_long_period self)) \<le> int (length df) \<longrightarrow>
      (\<forall>a. analyze_trend self df \<noteq> Inr (UNKNOWN, a)))"
  using determine_trend_type_never_unknown
  by (auto simp: analyze_trend_def required_rows_def Let_def split: sum.splits)

theorem analyze_trend_insufficient_data_witness:
  "int (length ([] :: analysed list))
       < max (bb_period default_analyzer)
           (max (rsi_period default_analyzer) (ma_long_period default_analyzer))
   \<and> analyze_trend default_analyzer [] = Inr (UNKNOWN, Reason_insufficient_data)
   \<and> max (bb_period default_analyzer)
           (max (rsi_period default_analyzer) (ma_long_period default_analyzer))
       \<le> int (length example_frame)
   \<and> (\<forall>a. analyze_trend default_analyzer example_frame \<noteq> Inr (UNKNOWN, a))"
  using analyze_trend_insufficient_data [of "[]" default_analyzer]
    analyze_trend_insufficient_data [of example_frame default_analyzer]
  by (simp add: default_analyzer_def length_example_frame)

lemma double_0_2: "round_double (1 / 5) = Fin (3602879701896397 / 18014398509481984)"
  using round_double_eval [of "- 3" "0.2"] by (simp add: round_half_even_def Let_def)

lemma double_0_3: "round_double (3 / 10) = Fin (5404319552844595 / 18014398509481984)"
  using round_double_eval [of "- 2" "0.3"] by (simp add: round_half_even_def Let_def)

lemma double_0_7: "round_double (7 / 10) = Fin (3152519739159347 / 4503599627370496)"
  using round_double_eval [of "- 1" "0.7"] by (simp add: round_half_even_def Let_def)

lemma double_0_8: "round_double (4 / 5) = Fin (3602879701896397 / 4503599627370496)"
  using round_double_eval [of "- 1" "0.8"] by (simp add: round_half_even_def Let_def)

lemma default_threshold: "round_double (1 / 50) = Fin (sideways_threshold default_analyzer)"
  using round_double_eval [of "- 6" "1 / 50"]
  by (simp add: default_analyzer_def round_half_even_def Let_def)

lemma default_half_threshold:
  "ddiv (Fin (5764607523034235 / 288230376151711744)) (Fin 2)
     = Fin (5764607523034235 / 576460752303423488)"
  using round_double_eval [of "- 7" "5764607523034235 / 576460752303423488"]
  by (simp add: ddiv_def round_half_even_def Let_def)

lemma default_upper_factor:
  "dadd (Fin 1) (Fin (5764607523034235 / 576460752303423488))
     = Fin (4548635623644201 / 4503599627370496)"
  using round_double_eval [of 0 "1 + 5764607523034235 / 576460752303423488"]
  by (simp add: dadd_def round_half_even_def Let_def)

lemma default_lower_factor:
  "dsub (Fin 1) (Fin (5764607523034235 / 576460752303423488))
     = Fin (4458563631096791 / 4503599627370496)"
  using round_double_eval [of "- 1" "1 - 5764607523034235 / 576460752303423488"]
  by (simp add: dsub_def fsub_def round_half_even_def Let_def)

lemma upper_bound_100: "dmul (Fin 100) (Fin (4548635623644201 / 4503599627370496)) = Fin 101"
  using round_double_eval [of 6 "100 * (4548635623644201 / 4503599627370496)"]
  by (simp add: dmul_def round_half_even_def Let_def)

lemma lower_bound_100: "dmul (Fin 100) (Fin (4458563631096791 / 4503599627370496)) = Fin 99"
  using round_double_eval [of 6 "100 * (4458563631096791 / 4503599627370496)"]
  by (simp add: dmul_def round_half_even_def Let_def)

lemma upper_bound_1:
  "dmul (Fin 1) (Fin (4548635623644201 / 4503599627370496))
     = Fin (4548635623644201 / 4503599627370496)"
  using round_double_eval [of 0 "4548635623644201 / 4503599627370496"]
  by (simp add: dmul_def round_half_even_def Let_def)

lemma lower_bound_1:
  "dmul (Fin 1) (Fin (4458563631096791 / 4503599627370496))
     = Fin (4458563631096791 / 4503599627370496)"
  using round_double_eval [of "- 1" "4458563631096791 / 4503599627370496"]
  by (simp add: dmul_def round_half_even_def Let_def)

lemma length_boundary_frame: "length boundary_frame = 30"
  by (simp add: boundary_frame_def)

text \<open>
  Claim C1. On a frame long enough to classify (non-empty, with at least the required
  number of rows, and a confirmation window of at least one row), \<open>analyze_trend\<close> returns
  the trend that the rules give in their order of precedence: \<open>SIDEWAYS\<close> when at least
  three of the four sideways conditions hold on the latest row; else \<open>UPTREND\<close> when at
  least two of the three uptrend conditions hold; else \<open>DOWNTREND\<close> when at least two of
  the mirrored conditions hold; else \<open>SIDEWAYS\<close>. The closes compared are the first and
  the last close of the trailing window of the last \<open>trend_confirmation\<close> rows, and every
  condition is evaluated on doubles.
\<close>

theorem analyze_trend_rule_order:
  assumes "max (bb_period self) (max (rsi_period self) (ma_long_period self)) \<le> int (length df)"
    and "df \<noteq> []"
    and "1 \<le> trend_confirmation self"
  shows "\<exists>a. analyze_trend self df = Inr (spec_classify self df, Indicators a)"
proof -
  let ?rd = "tail (trend_confirmation self) df"
  have ne: "?rd \<noteq> []" using assms tail_nonempty by blast
  have l: "iloc ?rd (- 1) = Inr (df ! (length df - 1))"
    using iloc_last [OF ne] tail_last [OF assms(2,3)] by simp
  have f: "iloc ?rd 0 = Inr (df ! (if nat (trend_confirmation self) \<le> length df
                then length df - nat (trend_confirmation self) else 0))"
    using iloc_first [OF ne] tail_first [OF assms(2,3)] by simp
  have enough: "\<not> int (length df) < required_rows self"
    using assms(1) unfolding required_rows_def by linarith
  show ?thesis
    by (simp add: analyze_trend_def enough iloc_last [OF assms(2)] Let_def
        determine_trend_type_def l f sum_bools_3_of_4 sum_bools_2_of_3 spec_classify_def fgt_def)
qed

theorem analyze_trend_rule_order_witness:
  "max (bb_period default_analyzer)
       (max (rsi_period default_analyzer) (ma_long_period default_analyzer))
     \<le> int (length example_frame)
   \<and> example_frame \<noteq> []
   \<and> 1 \<le> trend_confirmation default_analyzer
   \<and> (\<exists>a. analyze_trend default_analyzer example_frame = Inr (UPTREND, Indicators a))
   \<and> max (bb_period default_analyzer)
       (max (rsi_period default_analyzer) (ma_long_period default_analyzer))
     \<le> int (length boundary_frame)
   \<and> boundary_frame \<noteq> []
   \<and> (\<exists>a. analyze_trend default_analyzer boundary_frame = Inr (SIDEWAYS, Indicators a))"
proof -
  have h1: "max (bb_period default_analyzer)
       (max (rsi_period default_analyzer) (ma_long_period default_analyzer))
     \<le> int (length example_frame)"
    by (simp add: default_analyzer_def length_example_frame)
  have h2: "example_frame \<noteq> []"
    by (simp add: example_frame_def)
  have h3: "1 \<le> trend_confirmation default_analyzer"
    by (simp add: default_analyzer_def)
  have g1: "max (bb_period default_analyzer)
       (max (rsi_period default_analyzer) (ma_long_period default_analyzer))
     \<le> int (length boundary_frame)"
    by (simp add: default_analyzer_def length_boundary_frame)
  have g2: "boundary_frame \<noteq> []"
    by (simp add: boundary_frame_def)
  have n: "nat (trend_confirmation default_analyzer) = 3"
    and t: "Fin (sideways_threshold default_analyzer)
              = Fin (5764607523034235 / 288230376151711744)"
    by (simp_all add: default_analyzer_def)
  have e: "example_frame ! 29 = example_row 110 (Fin 0.0625) (Fin 0.875) (Fin 75) (Fin 1.5)"
    and e': "example_frame ! 27 = example_row 100 (Fin 0.015625) (Fin 0.5) (Fin 50) (Fin 0)"
    by (simp_all add: example_frame_def nth_append)
  have b: "boundary_frame ! 29
             = example_row (4548635623644201 / 4503599627370496) (Fin 0.0625) (Fin 0.5)
                 (Fin 75) (Fin 1.5)"
    and b': "boundary_frame ! 27 = example_row 1 (Fin 0.0625) (Fin 0.5) (Fin 75) (Fin 1.5)"
    by (simp_all add: boundary_frame_def nth_append)
  have c: "spec_classify default_analyzer example_frame = UPTREND"
    by (simp add: spec_classify_def length_example_frame n e e' Let_def default_half_threshold
        default_upper_factor default_lower_factor upper_bound_100 lower_bound_100
        double_0_2 double_0_3 double_0_7 double_0_8 at_least_3_of_4_def at_least_2_of_3_def
        example_row_def t)
  have d: "spec_classify default_analyzer boundary_frame = SIDEWAYS"
    by (simp add: spec_classify_def length_boundary_frame n b b' Let_def default_half_threshold
        default_upper_factor default_lower_factor upper_bound_1 lower_bound_1
        double_0_2 double_0_3 double_0_7 double_0_8 at_least_3_of_4_def at_least_2_of_3_def
        example_row_def t)
  show ?thesis
    using analyze_trend_rule_order [OF h1 h2 h3] analyze_trend_rule_order [OF g1 g2 h3]
      h1 h2 h3 g1 g2 c d
    by simp
qed

section \<open>Rolling windows look backwards only\<close>

lemma window_append:
  "i < length xs \<Longrightarrow> w \<le> Suc i \<Longrightarrow> window w i (xs @ ys) = window w i xs"
  by (simp add: window_def)

lemma length_rolling_values: "length (rolling_values w agg xs) = length xs"
  by (simp add: rolling_values_def)

lemma rolling_values_nth_append:
  "i < length xs \<Longrightarrow> rolling_values w agg (xs @ ys) ! i = rolling_values w agg xs ! i"
  by (simp add: rolling_values_def window_append nth_append)

lemma diff_nth_append: "i < length xs \<Longrightarrow> diff (xs @ ys) ! i = diff xs ! i"
  by (auto simp: diff_def nth_append)

lemma pct_change_nth_append: "i < length xs \<Longrightarrow> pct_change (xs @ ys) ! i = pct_change xs ! i"
  by (auto simp: pct_change_def nth_append)

lemma length_diff: "length (diff xs) = length xs"
  by (simp add: diff_def)

lemma length_pct_change: "length (pct_change xs) = length xs"
  by (simp add: pct_change_def)

lemma take_prefix_nth:
  assumes "length xs = n" and "n \<le> length zs" and "\<And>i. i < n \<Longrightarrow> zs ! i = xs ! i"
  shows "take n zs = xs"
  using assms by (intro nth_equalityI) simp_all

lemma diff_take: "take (length xs) (diff (xs @ ys)) = diff xs"
  by (rule take_prefix_nth) (simp_all add: length_diff diff_nth_append)

lemma pct_change_take: "take (length xs) (pct_change (xs @ ys)) = pct_change xs"
  by (rule take_prefix_nth) (simp_all add: length_pct_change pct_change_nth_append)

lemma closes_append: "closes (s @ t) = closes s @ closes t"
  by (simp add: closes_def)

lemma length_closes: "length (closes s) = length s"
  by (simp add: closes_def)

lemma take_map_upt:
  assumes "\<And>i. i < n \<Longrightarrow> f i = g i"
  shows "take n (map f [0..<n + m]) = map g [0..<n]"
  using assms by (simp add: take_map)

lemma where_other_append:
  "where_other cond other (xs @ ys) = where_other cond other xs @ where_other cond other ys"
  by (simp add: where_other_def)

lemma diff_append_split: "\<exists>zs. diff (xs @ ys) = diff xs @ zs"
  by (metis diff_take append_take_drop_id)

lemma pct_change_append_split: "\<exists>zs. pct_change (xs @ ys) = pct_change xs @ zs"
  by (metis pct_change_take append_take_drop_id)

lemma bollinger_prefix:
  "map_sum id (take (length s)) (calculate_bollinger_bands self (s @ t))
     = calculate_bollinger_bands self s"
  by (simp add: calculate_bollinger_bands_def rolling_def closes_append take_map_upt
      rolling_values_nth_append length_closes nth_append)

lemma rsi_prefix:
  "map_sum id (take (length s)) (calculate_rsi self (s @ t)) = calculate_rsi self s"
proof -
  obtain zs where d: "diff (closes s @ closes t) = diff (closes s) @ zs"
    using diff_append_split by blast
  have l: "length (diff (closes s)) = length s" by (simp add: length_diff length_closes)
  show ?thesis
    by (simp add: calculate_rsi_def rolling_def closes_append d where_other_append take_map_upt
      rolling_values_nth_append l where_other_def Let_def)
qed

lemma averages_prefix:
  "map_sum id (take (length s)) (calculate_moving_averages self (s @ t))
     = calculate_moving_averages self s"
  by (simp add: calculate_moving_averages_def rolling_def closes_append take_map_upt
      rolling_values_nth_append length_closes)

lemma volatility_prefix:
  "map_sum id (take (length s)) (calculate_volatility p (s @ t)) = calculate_volatility p s"
proof -
  obtain zs where d: "pct_change (closes s @ closes t) = pct_change (closes s) @ zs"
    using pct_change_append_split by blast
  have l: "length (pct_change (closes s)) = length s"
    by (simp add: length_pct_change length_closes)
  show ?thesis
    by (simp add: calculate_volatility_def rolling_def closes_append d take_map_upt
      rolling_values_nth_append l Let_def nth_append)
qed

lemma prefix_Inl: "map_sum id f r' = r \<Longrightarrow> r' = Inl e \<Longrightarrow> r = Inl e"
  by auto

lemma prefix_Inr: "map_sum id f r' = r \<Longrightarrow> r' = Inr v \<Longrightarrow> r = Inr (f v)"
  by auto

text \<open>
  Claim C9. For every candle series \<open>s\<close> and every new candle \<open>c\<close>, the full indicator
  computation on \<open>s @ [c]\<close> agrees at every index of \<open>s\<close> with the computation on \<open>s\<close>
  (and fails exactly when that one fails): appending a candle changes no indicator value
  at an earlier index, so the only values that change lie in the trailing window of the
  new point.
\<close>

theorem get_full_analysis_append:
  "map_sum id (take (length s)) (get_full_analysis self (s @ [c])) = get_full_analysis self s"
proof (cases "calculate_bollinger_bands self (s @ [c])")
  case (Inl e)
  with prefix_Inl [OF bollinger_prefix Inl] show ?thesis
    by (simp add: get_full_analysis_def)
next
  case b': (Inr bbs)
  note b = prefix_Inr [OF bollinger_prefix b']
  show ?thesis
  proof (cases "calculate_rsi self (s @ [c])")
    case (Inl e)
    with prefix_Inl [OF rsi_prefix Inl] b b' show ?thesis
      by (simp add: get_full_analysis_def)
  next
    case r': (Inr rsis)
    note r = prefix_Inr [OF rsi_prefix r']
    show ?thesis
    proof (cases "calculate_moving_averages self (s @ [c])")
      case (Inl e)
      with prefix_Inl [OF averages_prefix Inl] b b' r r' show ?thesis
        by (simp add: get_full_analysis_def)
    next
      case m': (Inr ms)
      note m = prefix_Inr [OF averages_prefix m']
      show ?thesis
      proof (cases "calculate_volatility 20 (s @ [c])")
        case (Inl e)
        with prefix_Inl [OF volatility_prefix Inl] b b' r r' m m' show ?thesis
          by (simp add: get_full_analysis_def)
      next
        case v': (Inr vs)
        note v = prefix_Inr [OF volatility_prefix v']
        have "take (length s)
                (map (\<lambda>i. \<lparr>bar = (s @ [c]) ! i, bands = bbs ! i, rsi = rsis ! i, mas = ms ! i,
                          vol = vs ! i\<rparr>) [0..<length s + 1])
              = map (\<lambda>i. \<lparr>bar = s ! i, bands = take (length s) bbs ! i,
                          rsi = take (length s) rsis ! i, mas = take (length s) ms ! i,
                          vol = take (length s) vs ! i\<rparr>) [0..<length s]"
          by (rule take_map_upt) (simp add: nth_append)
        then show ?thesis
          by (simp add: get_full_analysis_def b b' r r' m m' v v')
      qed
    qed
  qed
qed

section \<open>Bollinger bands of a flat series\<close>

lemma window_replicate:
  "i < n \<Longrightarrow> w \<le> Suc i \<Longrightarrow> window w i (replicate n x) = replicate w x"
  by (simp add: window_def min_def)

lemma those_replicate: "those (replicate w (Some a)) = Some (replicate w a)"
  by (induction w) simp_all

lemma mean_replicate: "mean (replicate 20 100) = Fin 100"
  by (simp add: mean_def sum_list_replicate ddiv_def double_2000 double_100)

lemma std_replicate: "1 < w \<Longrightarrow> std (replicate w a) = Fin 0"
  by (simp add: std_def sum_list_replicate)

lemma rolling_values_replicate:
  "i < n \<Longrightarrow> rolling_values w agg (replicate n (Fin a)) ! i
     = (if Suc i < w then NaN else agg (replicate w a))"
  by (simp add: rolling_values_def window_replicate those_replicate)

lemma closes_replicate: "closes (replicate n c) = replicate n (Fin (close c))"
  by (simp add: closes_def)

lemma bollinger_row_undefined: "bollinger_row k (Fin c) NaN NaN = undefined_bands"
  by (simp add: bollinger_row_def undefined_bands_def dadd_def dsub_def dmul_def ddiv_def
      fsub_def Let_def)

lemma bollinger_row_flat: "bollinger_row 2 (Fin 100) (Fin 100) (Fin 0) = flat_bands"
  by (simp add: bollinger_row_def flat_bands_def dadd_def dsub_def dmul_def ddiv_def
      fsub_def inf_of_sign_def double_100 Let_def)

text \<open>
  Claim C7. With a period of 20 and a multiplier of 2, the Bollinger columns of 25
  candles that all close at 100 are undefined at the first 19 indices and, at each of
  the six indices from the first full window on, \<open>bb_middle = 100\<close>, \<open>bb_std = 0\<close>,
  \<open>bb_upper = 100\<close>, \<open>bb_lower = 100\<close>, \<open>bb_width = 0\<close>, while \<open>bb_position\<close>, a division of
  zero by zero, is the undefined value: no sentinel replaces it.
\<close>

theorem bollinger_flat_series:
  "calculate_bollinger_bands default_analyzer (replicate 25 (c\<lparr>close := 100\<rparr>))
     = Inr (replicate 19 undefined_bands @ replicate 6 flat_bands)"
proof -
  let ?df = "replicate 25 (c\<lparr>close := 100\<rparr>)"
  let ?rows = "map (\<lambda>i. bollinger_row 2 (closes ?df ! i)
                (rolling_values 20 mean (closes ?df) ! i)
                (rolling_values 20 std (closes ?df) ! i)) [0..<25]"
  have "?rows = replicate 19 undefined_bands @ replicate 6 flat_bands"
  proof (rule nth_equalityI)
    show "length ?rows = length (replicate 19 undefined_bands @ replicate 6 flat_bands)"
      by simp
  next
    fix i
    assume "i < length ?rows"
    then have i: "i < 25" by simp
    then show "?rows ! i = (replicate 19 undefined_bands @ replicate 6 flat_bands) ! i"
      by (simp add: closes_replicate rolling_values_replicate mean_replicate std_replicate
          bollinger_row_undefined bollinger_row_flat nth_append)
  qed
  then show ?thesis
    by (simp add: calculate_bollinger_bands_def rolling_def default_analyzer_def)
qed

section \<open>Failover of the hybrid source\<close>

lemma get_klines_degraded:
  "use_alternative self \<Longrightarrow>
   get_klines self b request symbol interval limit
     = (get_klines_alternative request symbol interval limit, self)"
  by (simp add: get_klines_def)

lemma get_ticker_price_degraded:
  "use_alternative self \<Longrightarrow>
   get_ticker_price self b request_price symbol
     = (get_current_price_coingecko request_price symbol, self)"
  by (simp add: get_ticker_price_def)

lemma do_call_degraded: "use_alternative self \<Longrightarrow> do_call self c = (fallback_reply c, self)"
  by (cases c) (simp_all add: get_klines_degraded get_ticker_price_degraded)

lemma run_calls_degraded:
  "use_alternative self \<Longrightarrow> run_calls self cs = (map fallback_reply cs, self)"
  by (induction cs) (simp_all add: do_call_degraded)

text \<open>
  Claim C3. When the primary source raises during \<open>get_klines\<close> or \<open>get_ticker_price\<close>
  on an instance that still uses it, the instance sets \<open>use_alternative\<close> and answers from
  the fallback. On an instance with \<open>use_alternative\<close> set, every sequence of later calls
  is answered by the fallback alone and leaves the instance as it was: the flag stays
  set and the primary is not invoked again, whatever it would now answer.
\<close>

theorem hybrid_failover_one_way:
  "get_klines (self\<lparr>use_alternative := False\<rparr>) (Raises e) request symbol interval limit
     = (get_klines_alternative request symbol interval limit,
        self\<lparr>use_alternative := True, binance_calls := binance_calls self + 1\<rparr>)
   \<and> get_ticker_price (self\<lparr>use_alternative := False\<rparr>) (Raises e) request_price symbol
     = (get_current_price_coingecko request_price symbol,
        self\<lparr>use_alternative := True, binance_calls := binance_calls self + 1\<rparr>)
   \<and> (use_alternative self \<longrightarrow> run_calls self cs = (map fallback_reply cs, self))"
  by (simp add: get_klines_def get_ticker_price_def run_calls_degraded)

theorem hybrid_failover_one_way_witness:
  "get_ticker_price fresh (Raises RequestError) (\<lambda>coin_id. Some 30001) ''BTCUSDT''
     = (Some 30001, degraded)
   \<and> use_alternative degraded
   \<and> run_calls degraded example_calls
     = ([Klines (Some [coingecko_candle 0 30000 5]), Price (Some 30001)], degraded)"
proof -
  have k: "get_klines_alternative (\<lambda>coin_id days. Some example_chart) ''BTCUSDT'' ''1h'' 100
            = Some [coingecko_candle 0 30000 5]"
    by (simp add: get_klines_alternative_def get_historical_data_coingecko_def symbol_mapping_def
        interval_to_days_def example_chart_def to_datetime_def)
  have p: "get_current_price_coingecko (\<lambda>coin_id. Some 30001) ''BTCUSDT'' = Some 30001"
    by (simp add: get_current_price_coingecko_def symbol_mapping_def)
  have d: "use_alternative degraded" by (simp add: degraded_def)
  have f: "fresh\<lparr>use_alternative := False\<rparr> = fresh"
    and g: "fresh\<lparr>use_alternative := True, binance_calls := binance_calls fresh + 1\<rparr> = degraded"
    by (simp_all add: fresh_def degraded_def)
  have r: "map fallback_reply example_calls
            = [Klines (Some [coingecko_candle 0 30000 5]), Price (Some 30001)]"
    by (simp add: example_calls_def k p)
  show ?thesis
    using hybrid_failover_one_way [of fresh RequestError "\<lambda>coin_id days. None" "''BTCUSDT''"
        "''1h''" 100 "\<lambda>coin_id. Some 30001" "[]"]
      hybrid_failover_one_way [of degraded RequestError "\<lambda>coin_id days. None" "''BTCUSDT''"
        "''1h''" 100 "\<lambda>coin_id. Some 30001" example_calls]
    by (simp only: f g d r p simp_thms)
qed

section \<open>Candles of the fallback source\<close>

lemma set_tail_subset: "set (tail n xs) \<subseteq> set xs"
  by (auto simp: tail_def dest: in_set_dropD)

lemma double_1_01: "round_double (101 / 100) = Fin (4548635623644201 / 4503599627370496)"
  using round_double_eval [of 0 "1.01"] by (simp add: round_half_even_def Let_def)

lemma double_0_99: "round_double (99 / 100) = Fin (4458563631096791 / 4503599627370496)"
  using round_double_eval [of "- 1" "0.99"] by (simp add: round_half_even_def Let_def)

lemma high_30000: "dmul (Fin 30000) (round_double 1.01) = Fin 30300"
  using round_double_eval [of 14 "30000 * (4548635623644201 / 4503599627370496)"]
  by (simp add: double_1_01 dmul_def round_half_even_def Let_def)

lemma low_30000: "dmul (Fin 30000) (round_double 0.99) = Fin 29700"
  using round_double_eval [of 14 "30000 * (4458563631096791 / 4503599627370496)"]
  by (simp add: double_0_99 dmul_def round_half_even_def Let_def)

lemma high_3: "dmul (Fin 3) (round_double 1.01) = Fin (3411476717733151 / 1125899906842624)"
  using round_double_eval [of 1 "3 * (4548635623644201 / 4503599627370496)"]
  by (simp add: double_1_01 dmul_def round_half_even_def Let_def)

lemma low_3: "dmul (Fin 3) (round_double 0.99) = Fin (3343922723322593 / 1125899906842624)"
  using round_double_eval [of 1 "3 * (4458563631096791 / 4503599627370496)"]
  by (simp add: double_0_99 dmul_def round_half_even_def Let_def)

text \<open>
  Claim C8. Every candle that the fallback path returns was built from a fetched price
  \<open>p\<close>: its open and close are \<open>p\<close>, its high is the product \<open>p * 1.01\<close> and its low the
  product \<open>p * 0.99\<close>, as double arithmetic gives them (the literals are the doubles
  nearest to 1.01 and 0.99, and the product is rounded once). For the price 30000 the
  high is exactly 30300 and the low exactly 29700.
\<close>

theorem fallback_candles_one_percent:
  assumes "get_klines_alternative request symbol interval limit = Some df" and "c \<in> set df"
  shows "open c = close c
         \<and> high c = dmul (Fin (close c)) (round_double 1.01)
         \<and> low c = dmul (Fin (close c)) (round_double 0.99)
         \<and> (\<exists>coin_id days data t.
               request coin_id days = Some data \<and> (t, close c) \<in> set (prices data))
         \<and> round_double 1.01 = Fin (4548635623644201 / 4503599627370496)
         \<and> round_double 0.99 = Fin (4458563631096791 / 4503599627370496)
         \<and> high (coingecko_candle t0 30000 v0) = Fin 30300
         \<and> low (coingecko_candle t0 30000 v0) = Fin 29700"
proof -
  define days where
    "days = (case map_of interval_to_days interval of None \<Rightarrow> 1 | Some d \<Rightarrow> d)"
  from assms(1) obtain full where
    h: "get_historical_data_coingecko request symbol days = Some full" and
    d: "df = (if int (length full) > limit then tail limit full else full)"
    by (auto simp: get_klines_alternative_def Let_def days_def split: option.splits if_splits)
  have sub: "set df \<subseteq> set full"
    using d set_tail_subset [of limit full] by (simp split: if_splits)
  obtain coin_id data stamps where
    r: "request coin_id days = Some data" and
    f: "full = map (\<lambda>i. coingecko_candle (stamps ! i) (snd (prices data ! i))
                                (if i < length (total_volumes data)
                                 then snd (total_volumes data ! i) else 0))
                       [0..<length (prices data)]"
    using h by (auto simp: get_historical_data_coingecko_def split: option.splits if_splits)
  from assms(2) sub f obtain i where
    i: "i < length (prices data)" and
    c: "c = coingecko_candle (stamps ! i) (snd (prices data ! i))
                                (if i < length (total_volumes data)
                                 then snd (total_volumes data ! i) else 0)"
    by auto
  have "prices data ! i \<in> set (prices data)" using i by simp
  then have "(fst (prices data ! i), close c) \<in> set (prices data)"
    using c by (simp add: coingecko_candle_def)
  with r have "\<exists>coin_id days data t.
      request coin_id days = Some data \<and> (t, close c) \<in> set (prices data)"
    by blast
  then show ?thesis
    using c high_30000 low_30000 by (simp add: coingecko_candle_def double_1_01 double_0_99)
qed

theorem fallback_candles_one_percent_witness:
  "get_klines_alternative (\<lambda>coin_id days. Some small_chart) ''BTCUSDT'' ''1h'' 100
     = Some [coingecko_candle 0 3 5]
   \<and> coingecko_candle 0 3 5 \<in> set [coingecko_candle 0 3 5]
   \<and> open (coingecko_candle 0 3 5) = 3
   \<and> close (coingecko_candle 0 3 5) = 3
   \<and> high (coingecko_candle 0 3 5) = Fin (3411476717733151 / 1125899906842624)
   \<and> low (coingecko_candle 0 3 5) = Fin (3343922723322593 / 1125899906842624)
   \<and> high (coingecko_candle 0 30000 5) = Fin 30300
   \<and> low (coingecko_candle 0 30000 5) = Fin 29700"
proof -
  have k: "get_klines_alternative (\<lambda>coin_id days. Some small_chart) ''BTCUSDT'' ''1h'' 100
            = Some [coingecko_candle 0 3 5]"
    by (simp add: get_klines_alternative_def get_historical_data_coingecko_def symbol_mapping_def
        interval_to_days_def small_chart_def to_datetime_def)
  have m: "coingecko_candle 0 3 5 \<in> set [coingecko_candle 0 3 5]" by simp
  have cl: "close (coingecko_candle 0 3 5) = 3" by (simp add: coingecko_candle_def)
  show ?thesis
    using fallback_candles_one_percent [OF k m, of 0 5] k cl high_3 low_3 by simp
qed

section \<open>Starting the monitor\<close>

text \<open>
  Claim C4 (a start with no reachable source is aborted, a failure is reported and the
  monitor stays stopped) fails on the code. \<open>start_monitoring\<close> tests the truth value of
  the dictionary of probe results, which always has its three entries: with every probe
  failing, a stopped monitor still sets \<open>is_monitoring\<close>, starts the loop thread and sends
  the alert that monitoring has begun; no failure is reported.
\<close>

theorem start_monitoring_ignores_failed_probes:
  "test_connectivity (Returns False) False False
     = [(''binance'', False), (''coingecko'', False), (''cryptocompare'', False)]
   \<and> start_monitoring (self\<lparr>is_monitoring := False\<rparr>) (Returns False) False False
     = self\<lparr>is_monitoring := True, monitor_thread := True,
            alerts := alerts self @ [System_alert INFO Monitoring_started]\<rparr>"
  by (simp add: start_monitoring_def truthy_def test_connectivity_def
      alternative_test_connectivity_def dict_update_def dict_set_def)

section \<open>Rounds of a monitor without pairs\<close>

lemma max_workers_empty:
  "symbols self = [] \<or> timeframes self = [] \<Longrightarrow> max_workers self = 0"
  by (auto simp: max_workers_def)

lemma round_empty:
  "symbols self = [] \<or> timeframes self = [] \<Longrightarrow> perform_monitoring_round self w = Inl ValueError"
  by (simp add: perform_monitoring_round_def max_workers_empty)

lemma loop_iteration_empty:
  "symbols self = [] \<or> timeframes self = [] \<Longrightarrow>
   loop_iteration self w
     = self\<lparr>alerts := alerts self @ [System_alert ERROR (Loop_error ValueError)],
            slept := slept self @ [10]\<rparr>"
  by (simp add: loop_iteration_def round_empty)

lemma round_fails_iff:
  "(\<exists>e. perform_monitoring_round self w = Inl e)
     = (symbols self = [] \<or> timeframes self = [])"
proof -
  have "(max_workers self \<le> 0) = (symbols self = [] \<or> timeframes self = [])"
  proof
    assume "max_workers self \<le> 0"
    then have "int (length (symbols self)) * int (length (timeframes self)) \<le> 0"
      by (simp add: max_workers_def)
    then have "length (symbols self) * length (timeframes self) = 0"
      by (metis le_zero_eq of_nat_0 of_nat_le_iff of_nat_mult)
    then show "symbols self = [] \<or> timeframes self = []" by simp
  next
    assume "symbols self = [] \<or> timeframes self = []"
    then show "max_workers self \<le> 0" by (simp add: max_workers_empty)
  qed
  then show ?thesis by (auto simp: perform_monitoring_round_def)
qed

text \<open>
  Claim C10. A round fails before any task is submitted exactly when the list of symbols
  or the list of timeframes is empty: the pool is built with \<open>min(10, 0) = 0\<close> workers and
  its constructor raises. While that is so, every pass of the running loop ends in the
  handler of the loop: a system alert of level \<open>ERROR\<close> and a sleep of ten seconds. After
  any number of passes the monitor differs from the initial one in these two logs only;
  the trend history and the data source are untouched.
\<close>

theorem empty_pairs_every_round_fails:
  "((\<exists>e. perform_monitoring_round self w = Inl e)
      = (symbols self = [] \<or> timeframes self = []))
   \<and> (symbols self = [] \<or> timeframes self = [] \<longrightarrow>
        perform_monitoring_round self w = Inl ValueError)
   \<and> (symbols self = [] \<or> timeframes self = [] \<longrightarrow> is_monitoring self \<longrightarrow>
        monitoring_loop self ws
          = self\<lparr>alerts := alerts self
                     @ replicate (length ws) (System_alert ERROR (Loop_error ValueError)),
                 slept := slept self @ replicate (length ws) 10\<rparr>)"
proof -
  have "symbols self = [] \<or> timeframes self = [] \<Longrightarrow> is_monitoring self \<Longrightarrow>
        monitoring_loop self ws
          = self\<lparr>alerts := alerts self
                     @ replicate (length ws) (System_alert ERROR (Loop_error ValueError)),
                 slept := slept self @ replicate (length ws) 10\<rparr>"
  proof (induction ws arbitrary: self)
    case Nil
    then show ?case by simp
  next
    case (Cons w' ws)
    let ?s = "self\<lparr>alerts := alerts self @ [System_alert ERROR (Loop_error ValueError)],
            slept := slept self @ [10]\<rparr>"
    have e: "symbols ?s = [] \<or> timeframes ?s = []" using Cons.prems(1) by simp
    have m: "is_monitoring ?s" using Cons.prems(2) by simp
    show ?case
      using Cons.IH [OF e m] Cons.prems
      by (simp add: loop_iteration_empty replicate_append_same)
  qed
  then show ?thesis
    using round_fails_iff [of self w] by (simp add: round_empty)
qed

theorem empty_pairs_every_round_fails_witness:
  "symbols idle_monitor = [] \<and> is_monitoring idle_monitor
   \<and> perform_monitoring_round idle_monitor quiet_world = Inl ValueError
   \<and> monitoring_loop idle_monitor [quiet_world, quiet_world]
       = idle_monitor\<lparr>alerts := [System_alert ERROR (Loop_error ValueError),
                                   System_alert ERROR (Loop_error ValueError)],
                       slept := [10, 10]\<rparr>"
proof -
  have h2: "is_monitoring idle_monitor"
    and h3: "symbols idle_monitor = []"
    and h4: "alerts idle_monitor = []" and h5: "slept idle_monitor = []"
    by (simp_all add: idle_monitor_def)
  show ?thesis
    using empty_pairs_every_round_fails [of idle_monitor quiet_world "[quiet_world, quiet_world]"]
    by (simp add: h2 h3 h4 h5)
qed

section \<open>The relative strength index\<close>
























end
